theory Spec2Isabelle
  imports Main "HOL-Library.Sublist"
begin

section \<open>JavaScript objects and strings, as far as the settings route uses them\<close>

text \<open>
  The route module \<^verbatim>\<open>routes/$projectP/settings.tsx\<close> works on plain JavaScript
  objects whose keys are strings. An object is modelled by the list of its own
  properties in enumeration order (the order of \<^verbatim>\<open>Object.entries\<close> and of object
  spread): array-index keys first, in ascending numeric order, then every other key in
  the order in which it was created. Keys are unique. Strings are \<^typ>\<open>string\<close>; the two
  patterns the route searches for, \<^verbatim>\<open>envVars[\<close> and \<^verbatim>\<open>]\<close>, are ASCII.
\<close>

type_synonym 'v js_object = "(string \<times> 'v) list"

definition is_digit :: "char \<Rightarrow> bool" where
  "is_digit c \<longleftrightarrow> c \<in> set ''0123456789''"

definition digit_val :: "char \<Rightarrow> int" where
  "digit_val c = of_char c - 48"

definition to_number :: "string \<Rightarrow> int" where
  "to_number s = foldl (\<lambda>n c. 10 * n + digit_val c) 0 s"

text \<open>
  An array index is a canonical numeric string (decimal digits, no leading zero except
  for \<^verbatim>\<open>"0"\<close> itself) whose value is below \<open>2^32 - 1\<close>.
\<close>

definition is_array_index :: "string \<Rightarrow> bool" where
  "is_array_index s \<longleftrightarrow>
     s \<noteq> [] \<and> list_all is_digit s \<and> (s = ''0'' \<or> hd s \<noteq> CHR ''0'') \<and>
     to_number s < 4294967295"

text \<open>Overwriting an existing property keeps its place in the enumeration order.\<close>

fun replace_value :: "string \<Rightarrow> 'v \<Rightarrow> 'v js_object \<Rightarrow> 'v js_object" where
  "replace_value k v [] = []"
| "replace_value k v ((k', v') # ps) =
     (if k' = k then (k, v) # ps else (k', v') # replace_value k v ps)"

text \<open>A new array-index key goes after the smaller indices and before everything else.\<close>

fun insert_index :: "string \<Rightarrow> 'v \<Rightarrow> 'v js_object \<Rightarrow> 'v js_object" where
  "insert_index k v [] = [(k, v)]"
| "insert_index k v ((k', v') # ps) =
     (if is_array_index k' \<and> to_number k' < to_number k
      then (k', v') # insert_index k v ps
      else (k, v) # (k', v') # ps)"

text \<open>
  \<^verbatim>\<open>CreateDataProperty(obj, k, v)\<close>: what \<^verbatim>\<open>Object.fromEntries\<close> does for each pair and
  what the object literal \<^verbatim>\<open>{ ...acc, [k]: v }\<close> does for its computed key after the
  properties of \<^verbatim>\<open>acc\<close> were copied in order.
\<close>

definition CreateDataProperty :: "'v js_object \<Rightarrow> string \<Rightarrow> 'v \<Rightarrow> 'v js_object" where
  "CreateDataProperty obj k v =
     (case map_of obj k of
        Some _ \<Rightarrow> replace_value k v obj
      | None \<Rightarrow> if is_array_index k then insert_index k v obj else obj @ [(k, v)])"

definition Object_fromEntries :: "(string \<times> 'v) list \<Rightarrow> 'v js_object" where
  "Object_fromEntries entries = foldl (\<lambda>obj (k, v). CreateDataProperty obj k v) [] entries"

definition Object_entries :: "'v js_object \<Rightarrow> (string \<times> 'v) list" where
  "Object_entries obj = obj"

text \<open>\<^verbatim>\<open>key.startsWith(p)\<close>.\<close>

definition startsWith :: "string \<Rightarrow> string \<Rightarrow> bool" where
  "startsWith key p \<longleftrightarrow> prefix p key"

text \<open>
  \<^verbatim>\<open>s.replace(pat, rep)\<close> with a string pattern: only the first occurrence of \<open>pat\<close> is
  replaced. (The replacement strings of the route are empty, so no \<^verbatim>\<open>$\<close> pattern of
  the replacement is involved.)
\<close>

fun String_replace :: "string \<Rightarrow> string \<Rightarrow> string \<Rightarrow> string" where
  "String_replace [] pat rep = (if pat = [] then rep else [])"
| "String_replace (c # cs) pat rep =
     (if prefix pat (c # cs) then rep @ drop (length pat) (c # cs)
      else c # String_replace cs pat rep)"

section \<open>The form-field reshaper (lines 66 to 72 of the route)\<close>

text \<open>
  \<^verbatim>\<open>const envVarKey = key.replace("envVars[", "").replace("]", "");\<close>
\<close>

definition envVarKey :: "string \<Rightarrow> string" where
  "envVarKey key = String_replace (String_replace key ''envVars['' '''') '']'' ''''"

text \<open>
  \<^verbatim>\<open>Object.entries(formEntries).filter(([key]) => key.startsWith("envVars["))
     .reduce((acc, [key, value]) => ({ ...acc, [envVarKey]: value }), {})\<close>
\<close>

definition envVars :: "'v js_object \<Rightarrow> 'v js_object" where
  "envVars formEntries =
     foldl (\<lambda>acc (key, value). CreateDataProperty acc (envVarKey key) value) []
       (filter (\<lambda>(key, value). startsWith key ''envVars['') (Object_entries formEntries))"

text \<open>
  The reshaper as the specification words it: select the keys that are prefixed with
  \<^verbatim>\<open>envVars[\<close> and suffixed with \<^verbatim>\<open>]\<close>, and strip that wrapper (the leading eight
  characters and the last one) to recover the variable name.
\<close>

definition wrapped :: "string \<Rightarrow> bool" where
  "wrapped key \<longleftrightarrow> prefix ''envVars['' key \<and> suffix '']'' key"

definition strip_wrapper :: "string \<Rightarrow> string" where
  "strip_wrapper key = butlast (drop 8 key)"

definition envVars_spec :: "'v js_object \<Rightarrow> 'v js_object" where
  "envVars_spec formEntries =
     foldl (\<lambda>acc (key, value). CreateDataProperty acc (strip_wrapper key) value) []
       (filter (\<lambda>(key, value). wrapped key) formEntries)"

section \<open>Request, collaborators and response of the \<^verbatim>\<open>action\<close> handler\<close>

text \<open>
  A form entry is a string or an uploaded file (name and content). The request carries
  its cookie header and its form body; the body is \<open>None\<close> when it cannot be decoded, in
  which case \<^verbatim>\<open>request.formData()\<close> throws. Route parameters are strings or absent.
\<close>

datatype form_value = FText string | FFile string string

record request =
  cookie :: "string option"
  form :: "(string \<times> form_value) list option"

type_synonym params = "string \<Rightarrow> string option"

datatype failure = ZodError "string list" | TypeError | Thrown string

text \<open>A validation issue: the path of the field and the message.\<close>

type_synonym issue = "string list \<times> string"

datatype 'd validation = PayloadError "issue list" | ValidationSuccess 'd

record project =
  name :: string

datatype body = BodyValidationError "issue list" | BodySuccess

record 'h response =
  status :: nat
  location :: "string option"
  headers :: "'h option"
  body :: "body option"

text \<open>
  \<^verbatim>\<open>redirect(url, { headers })\<close> and \<^verbatim>\<open>typedjson(data, { status, headers })\<close> of
  remix-typedjson. A redirect is a response with status 302 whose Location header is
  the URL. The header is set through the \<^verbatim>\<open>Headers\<close> class of the platform, which
  throws a \<^verbatim>\<open>TypeError\<close> for a value it does not accept. A value that holds a carriage
  return or a line feed is not accepted; what else the platform refuses is the
  parameter \<open>ok\<close>.
\<close>

definition Location_accepted :: "(string \<Rightarrow> bool) \<Rightarrow> string \<Rightarrow> bool" where
  "Location_accepted ok url \<longleftrightarrow> CHR 0x0D \<notin> set url \<and> CHR 0x0A \<notin> set url \<and> ok url"

definition redirect :: "(string \<Rightarrow> bool) \<Rightarrow> string \<Rightarrow> 'h \<Rightarrow> failure + 'h response" where
  "redirect ok url hdrs =
     (if Location_accepted ok url
      then Inr \<lparr>status = 302, location = Some url, headers = Some hdrs, body = None\<rparr>
      else Inl TypeError)"

definition typedjson :: "body \<Rightarrow> nat \<Rightarrow> 'h option \<Rightarrow> 'h response" where
  "typedjson data st hdrs = \<lparr>status = st, location = None, headers = hdrs, body = Some data\<rparr>"

text \<open>
  Every call the handler makes is recorded, in order, together with its arguments.
  The effectful collaborators work on an abstract world \<open>'w\<close> (database, deployment
  queue, session storage) and may throw; \<open>'d\<close> is the validated payload, \<open>'s\<close> the
  session, \<open>'h\<close> the cookie headers. \<open>header_value_ok\<close> is the platform's further test
  of a header value, used when \<^verbatim>\<open>redirect\<close> sets the Location.
\<close>

datatype ('d, 's) event =
    Ev_formData
  | Ev_DisableProjectService_call string
  | Ev_console_log "form_value js_object" "form_value js_object"
  | Ev_validate "form_value js_object" "form_value js_object"
  | Ev_UpdateProjectSettings_call string 'd
  | Ev_setRequestSuccessMessage string
  | Ev_setToastMessageCookie 's

record ('w, 'd, 's) run =
  world :: 'w
  calls :: "('d, 's) event list"

record ('w, 'd, 's, 'h) collaborators =
  DisableProjectService_call :: "string \<Rightarrow> 'w \<Rightarrow> (failure + project) \<times> 'w"
  UpdateProjectSettings_validate ::
    "form_value js_object \<Rightarrow> form_value js_object \<Rightarrow> 'd validation"
  UpdateProjectSettings_call :: "string \<Rightarrow> 'd \<Rightarrow> 'w \<Rightarrow> (failure + bool) \<times> 'w"
  setRequestSuccessMessage :: "request \<Rightarrow> string \<Rightarrow> 'w \<Rightarrow> (failure + 's) \<times> 'w"
  setToastMessageCookie :: "'s \<Rightarrow> 'w \<Rightarrow> (failure + 'h) \<times> 'w"
  header_value_ok :: "string \<Rightarrow> bool"

type_synonym ('a, 'w, 'd, 's) step =
  "('w, 'd, 's) run \<Rightarrow> (failure + 'a) \<times> ('w, 'd, 's) run"

definition return :: "'a \<Rightarrow> ('a, 'w, 'd, 's) step" where
  "return x r = (Inr x, r)"

definition throw :: "failure \<Rightarrow> ('a, 'w, 'd, 's) step" where
  "throw e r = (Inl e, r)"

text \<open>Sequencing: a failure of the first step ends the handler, as an exception does.\<close>

definition and_then ::
  "('a, 'w, 'd, 's) step \<Rightarrow> ('a \<Rightarrow> ('b, 'w, 'd, 's) step) \<Rightarrow> ('b, 'w, 'd, 's) step" where
  "and_then m k r = (case m r of (Inl e, r') \<Rightarrow> (Inl e, r') | (Inr x, r') \<Rightarrow> k x r')"

text \<open>Calling a collaborator: the call is recorded, whether it returns or throws.\<close>

definition invoke ::
  "('d, 's) event \<Rightarrow> ('w \<Rightarrow> (failure + 'a) \<times> 'w) \<Rightarrow> ('a, 'w, 'd, 's) step" where
  "invoke ev f r =
     (case f (world r) of (res, w') \<Rightarrow> (res, \<lparr>world = w', calls = calls r @ [ev]\<rparr>))"

text \<open>
  \<^verbatim>\<open>z.object({ projectP: z.string(), organizationSlug: z.string() }).parse(params)\<close>:
  the error names every missing parameter.
\<close>

definition parse_params :: "params \<Rightarrow> failure + string \<times> string" where
  "parse_params ps =
     (case (ps ''projectP'', ps ''organizationSlug'') of
        (Some projectP, Some organizationSlug) \<Rightarrow> Inr (projectP, organizationSlug)
      | _ \<Rightarrow> Inl (ZodError (filter (\<lambda>k. ps k = None) [''projectP'', ''organizationSlug''])))"

definition formData :: "request \<Rightarrow> ((string \<times> form_value) list, 'w, 'd, 's) step" where
  "formData req =
     invoke Ev_formData
       (\<lambda>w. (case form req of None \<Rightarrow> Inl TypeError | Some entries \<Rightarrow> Inr entries, w))"

text \<open>\<^verbatim>\<open>formPayload.get(name)\<close>: the first value of that name, if any.\<close>

definition FormData_get :: "(string \<times> form_value) list \<Rightarrow> string \<Rightarrow> form_value option" where
  "FormData_get formPayload field = map_of formPayload field"

definition removed_message :: "string \<Rightarrow> string" where
  "removed_message project_name =
     ''Repository '' @ project_name @ '' has been removed and will no longer be deployed.''"

definition updated_message :: "bool \<Rightarrow> string" where
  "updated_message isDeploying =
     (if isDeploying then ''Settings updated. Deploying your repo now...''
      else ''Settings updated. They'' @ [CHR 0x27] @ ''ll take effect on the next deployment.'')"

section \<open>The handler (lines 23 to 109 of the route)\<close>

text \<open>
  The handler follows the source statement by statement. Constructing the two services
  has no effect of its own. A \<^verbatim>\<open>TypeError\<close> of \<^verbatim>\<open>redirect\<close> ends the handler like any
  other exception, after the calls made before it. \<^verbatim>\<open>service.validate\<close> is a synchronous call whose result is
  one of the two variants of the validation result; \<^verbatim>\<open>console.log\<close> is recorded like
  the calls of the collaborators.
\<close>

definition action ::
  "('w, 'd, 's, 'h) collaborators \<Rightarrow> params \<Rightarrow> request \<Rightarrow> ('h response, 'w, 'd, 's) step" where
  "action c ps req =
     and_then (case parse_params ps of Inl e \<Rightarrow> throw e | Inr p \<Rightarrow> return p)
       (\<lambda>(projectP, organizationSlug).
     and_then (formData req) (\<lambda>formPayload.
       if FormData_get formPayload ''action'' = Some (FText ''destroy'') then
         and_then (invoke (Ev_DisableProjectService_call projectP)
                     (DisableProjectService_call c projectP)) (\<lambda>project.
         and_then (invoke (Ev_setRequestSuccessMessage (removed_message (name project)))
                     (setRequestSuccessMessage c req (removed_message (name project))))
           (\<lambda>session.
         and_then (invoke (Ev_setToastMessageCookie session) (setToastMessageCookie c session))
           (\<lambda>hdrs.
         case redirect (header_value_ok c) (''/orgs/'' @ organizationSlug @ ''/projects'') hdrs of
           Inl e \<Rightarrow> throw e
         | Inr response \<Rightarrow> return response)))
       else
         let formEntries = Object_fromEntries formPayload;
             envVars = envVars formEntries
         in
         and_then (invoke (Ev_console_log formEntries envVars) (\<lambda>w. (Inr (), w))) (\<lambda>_.
         and_then (invoke (Ev_validate formEntries envVars)
                     (\<lambda>w. (Inr (UpdateProjectSettings_validate c formEntries envVars), w)))
           (\<lambda>validation.
         case validation of
           PayloadError errors \<Rightarrow> return (typedjson (BodyValidationError errors) 422 None)
         | ValidationSuccess data \<Rightarrow>
             and_then (invoke (Ev_UpdateProjectSettings_call projectP data)
                         (UpdateProjectSettings_call c projectP data)) (\<lambda>isDeploying.
             and_then (invoke (Ev_setRequestSuccessMessage (updated_message isDeploying))
                         (setRequestSuccessMessage c req (updated_message isDeploying)))
               (\<lambda>session.
             if isDeploying then
               and_then (invoke (Ev_setToastMessageCookie session)
                           (setToastMessageCookie c session)) (\<lambda>hdrs.
               case redirect (header_value_ok c)
                      (''/orgs/'' @ organizationSlug @ ''/projects/'' @ projectP) hdrs of
                 Inl e \<Rightarrow> throw e
               | Inr response \<Rightarrow> return response)
             else
               and_then (invoke (Ev_setToastMessageCookie session)
                           (setToastMessageCookie c session)) (\<lambda>hdrs.
               return (typedjson BodySuccess 200 (Some hdrs)))))))))"

text \<open>
  The outcome of the external schema validation that the validator adapts: a violation
  carries at least one issue, a success the normalised payload.
\<close>

datatype 'd schema_result = SchemaViolation issue "issue list" | SchemaOk 'd

text \<open>
  Modelled from the spec: \<^verbatim>\<open>UpdateProjectSettings.validate\<close> lives in
  \<^verbatim>\<open>services/updateProjectSettings.server\<close>, which is not among the sources. The
  specification describes it as an adapter around an external schema validation: it
  receives the flat fields and the reshaped environment-variable mapping, any schema
  violation yields the payload-error variant carrying the list of field-path/message
  pairs, which is non-empty for a payload that fails, and otherwise the success variant
  carries the normalised payload.
\<close>

definition validate ::
  "(form_value js_object \<Rightarrow> form_value js_object \<Rightarrow> 'd schema_result) \<Rightarrow>
   form_value js_object \<Rightarrow> form_value js_object \<Rightarrow> 'd validation" where
  "validate schema formEntries envVarsMap =
     (case schema formEntries envVarsMap of
        SchemaViolation i is \<Rightarrow> PayloadError (i # is)
      | SchemaOk d \<Rightarrow> ValidationSuccess d)"

section \<open>Auxiliary notions and sample data\<close>

text \<open>
  \<open>sole_key_for entries A\<close>: the name \<open>A\<close> contains no closing bracket, and the only
  submitted key that starts with \<^verbatim>\<open>envVars[\<close> and that the reshaper reduces to \<open>A\<close> is
  \<^verbatim>\<open>envVars[A]\<close> itself.
\<close>

definition sole_key_for :: "(string \<times> 'v) list \<Rightarrow> string \<Rightarrow> bool" where
  "sole_key_for entries A \<longleftrightarrow>
     CHR '']'' \<notin> set A \<and>
     (\<forall>k \<in> fst ` set entries.
        startsWith k ''envVars['' \<and> envVarKey k = A \<longrightarrow> k = ''envVars['' @ A @ '']'')"

text \<open>The handler's events that call the update orchestrator, the validator, the disable
  orchestrator.\<close>

fun is_update_call :: "('d, 's) event \<Rightarrow> bool" where
  "is_update_call (Ev_UpdateProjectSettings_call p d) = True"
| "is_update_call _ = False"

fun is_validate_call :: "('d, 's) event \<Rightarrow> bool" where
  "is_validate_call (Ev_validate fe ev) = True"
| "is_validate_call _ = False"

fun is_disable_call :: "('d, 's) event \<Rightarrow> bool" where
  "is_disable_call (Ev_DisableProjectService_call p) = True"
| "is_disable_call _ = False"

text \<open>The submission of the specification's example.\<close>

definition example_form :: "(string \<times> form_value) list" where
  "example_form =
     [(''action'', FText ''save''), (''autoDeploy'', FText ''yes''),
      (''branch'', FText ''main''), (''buildCommand'', FText ''npm install''),
      (''startCommand'', FText ''npm start''), (''envVars[FOO]'', FText ''bar'')]"

text \<open>
  Sample collaborators: a schema that requires a non-empty branch, an update that
  deploys when \<^verbatim>\<open>autoDeploy\<close> is \<^verbatim>\<open>yes\<close>, a world that counts the writes.
\<close>

definition sample_schema ::
  "form_value js_object \<Rightarrow> form_value js_object \<Rightarrow> form_value js_object schema_result" where
  "sample_schema formEntries envVarsMap =
     (case map_of formEntries ''branch'' of
        Some (FText (c # cs)) \<Rightarrow> SchemaOk (formEntries @ envVarsMap)
      | _ \<Rightarrow> SchemaViolation ([''branch''], ''Required'') [])"

definition sample_collaborators ::
  "(nat, form_value js_object, string, string) collaborators" where
  "sample_collaborators =
     \<lparr>DisableProjectService_call = (\<lambda>projectP w. (Inr \<lparr>name = ''my-repo''\<rparr>, Suc w)),
      UpdateProjectSettings_validate = validate sample_schema,
      UpdateProjectSettings_call =
        (\<lambda>projectP d w. (Inr (map_of d ''autoDeploy'' = Some (FText ''yes'')), Suc w)),
      setRequestSuccessMessage = (\<lambda>req message w. (Inr message, w)),
      setToastMessageCookie = (\<lambda>session w. (Inr (''Set-Cookie: '' @ session), w)),
      header_value_ok = (\<lambda>v. True)\<rparr>"

definition sample_params :: params where
  "sample_params = [''projectP'' \<mapsto> ''p1'', ''organizationSlug'' \<mapsto> ''acme'']"

text \<open>Route parameters whose organization slug holds a line feed.\<close>

definition newline_params :: params where
  "newline_params =
     [''projectP'' \<mapsto> ''p1'', ''organizationSlug'' \<mapsto> ''ac'' @ [CHR 0x0A] @ ''me'']"

definition sample_request :: "(string \<times> form_value) list \<Rightarrow> request" where
  "sample_request entries = \<lparr>cookie = None, form = Some entries\<rparr>"

definition start :: "(nat, form_value js_object, string) run" where
  "start = \<lparr>world = 0, calls = []\<rparr>"

definition invalid_form :: "(string \<times> form_value) list" where
  "invalid_form =
     [(''action'', FText ''save''), (''branch'', FText []), (''envVars[FOO]'', FText ''bar'')]"

definition destroy_form :: "(string \<times> form_value) list" where
  "destroy_form = [(''action'', FText ''destroy'')]"

definition unknown_form :: "(string \<times> form_value) list" where
  "unknown_form = [(''action'', FText ''archive''), (''branch'', FText ''main'')]"

section \<open>Properties of the object operations\<close>

lemma map_of_replace_value:
  "map_of (replace_value k v obj) =
     (if k \<in> fst ` set obj then (map_of obj)(k \<mapsto> v) else map_of obj)"
  by (induction k v obj rule: replace_value.induct) (auto simp: fun_eq_iff image_iff)

lemma keys_replace_value: "map fst (replace_value k v obj) = map fst obj"
  by (induction k v obj rule: replace_value.induct) auto

lemma set_insert_index: "set (insert_index k v obj) = insert (k, v) (set obj)"
  by (induction k v obj rule: insert_index.induct) auto

lemma map_of_insert_index:
  "k \<notin> fst ` set obj \<Longrightarrow> map_of (insert_index k v obj) = (map_of obj)(k \<mapsto> v)"
  by (induction k v obj rule: insert_index.induct) (auto simp: fun_eq_iff)

lemma distinct_insert_index:
  "k \<notin> fst ` set obj \<Longrightarrow> distinct (map fst obj) \<Longrightarrow>
     distinct (map fst (insert_index k v obj))"
  by (induction k v obj rule: insert_index.induct) (auto simp: set_insert_index)

lemma map_of_append_new:
  "map_of obj k = None \<Longrightarrow> map_of (obj @ [(k, v)]) = (map_of obj)(k \<mapsto> v)"
  by (auto simp: map_add_def fun_eq_iff split: option.splits)

lemma map_of_CreateDataProperty:
  "map_of (CreateDataProperty obj k v) = (map_of obj)(k \<mapsto> v)"
proof (cases "map_of obj k")
  case None
  then have "k \<notin> fst ` set obj" by (simp add: map_of_eq_None_iff)
  with None show ?thesis
    by (cases "is_array_index k")
      (simp_all add: CreateDataProperty_def map_of_insert_index map_of_append_new
        del: map_of_append)
next
  case (Some a)
  then have "k \<in> fst ` set obj" by (meson domI domIff map_of_eq_None_iff)
  with Some show ?thesis
    by (simp add: CreateDataProperty_def map_of_replace_value)
qed

lemma keys_CreateDataProperty:
  "fst ` set (CreateDataProperty obj k v) = insert k (fst ` set obj)"
proof -
  have "dom (map_of (CreateDataProperty obj k v)) = insert k (dom (map_of obj))"
    by (simp add: map_of_CreateDataProperty)
  then show ?thesis by (simp add: dom_map_of_conv_image_fst)
qed

lemma distinct_CreateDataProperty:
  assumes "distinct (map fst obj)"
  shows "distinct (map fst (CreateDataProperty obj k v))"
proof (cases "map_of obj k")
  case None
  then have "k \<notin> fst ` set obj" by (simp add: map_of_eq_None_iff)
  with None assms show ?thesis
    by (simp add: CreateDataProperty_def distinct_insert_index)
next
  case (Some a)
  with assms show ?thesis
    by (simp add: CreateDataProperty_def keys_replace_value)
qed

text \<open>A left fold of property definitions, as in fromEntries and in the reduce.\<close>

lemma map_of_foldl_CreateDataProperty:
  "map_of (foldl (\<lambda>acc (k, v). CreateDataProperty acc (f k) v) acc0 xs) =
     map_of (rev (map (\<lambda>(k, v). (f k, v)) xs) @ acc0)"
proof (induction xs arbitrary: acc0)
  case Nil
  show ?case by simp
next
  case (Cons p xs)
  obtain k v where p: "p = (k, v)" by (cases p)
  show ?case
    by (simp add: p Cons.IH map_of_CreateDataProperty)
qed

lemma distinct_foldl_CreateDataProperty:
  "distinct (map fst acc0) \<Longrightarrow>
     distinct (map fst (foldl (\<lambda>acc (k, v). CreateDataProperty acc (f k) v) acc0 xs))"
  by (induction xs arbitrary: acc0) (auto simp: distinct_CreateDataProperty)

lemma keys_foldl_CreateDataProperty:
  "fst ` set (foldl (\<lambda>acc (k, v). CreateDataProperty acc (f k) v) acc0 xs) =
     fst ` set acc0 \<union> f ` fst ` set xs"
proof (induction xs arbitrary: acc0)
  case Nil
  show ?case by simp
next
  case (Cons p xs)
  obtain k v where p: "p = (k, v)" by (cases p)
  show ?case
    by (simp add: p Cons.IH keys_CreateDataProperty Un_commute insert_commute)
qed

lemma map_of_Object_fromEntries: "map_of (Object_fromEntries es) = map_of (rev es)"
  using map_of_foldl_CreateDataProperty [of "\<lambda>k. k" "[]" es]
  by (simp add: Object_fromEntries_def)

lemma distinct_Object_fromEntries: "distinct (map fst (Object_fromEntries es))"
  using distinct_foldl_CreateDataProperty [of "[]" "\<lambda>k. k" es]
  by (simp add: Object_fromEntries_def)

lemma keys_Object_fromEntries: "fst ` set (Object_fromEntries es) = fst ` set es"
  using keys_foldl_CreateDataProperty [of "\<lambda>k. k" "[]" es]
  by (simp add: Object_fromEntries_def)

lemma envVars_keys:
  "fst ` set (envVars fe) = envVarKey ` {k \<in> fst ` set fe. startsWith k ''envVars[''}"
  unfolding envVars_def Object_entries_def keys_foldl_CreateDataProperty
  by force

lemma envVars_lookup_source:
  assumes "map_of (envVars fe) n = Some v"
  shows "\<exists>k. (k, v) \<in> set fe \<and> startsWith k ''envVars['' \<and> envVarKey k = n"
proof -
  have "map_of (rev (map (\<lambda>(k, v). (envVarKey k, v))
          (filter (\<lambda>(key, value). startsWith key ''envVars['') fe))) n = Some v"
    using assms by (simp add: envVars_def Object_entries_def map_of_foldl_CreateDataProperty)
  then have "(n, v) \<in> set (map (\<lambda>(k, v). (envVarKey k, v))
          (filter (\<lambda>(key, value). startsWith key ''envVars['') fe))"
    using map_of_SomeD by fastforce
  then show ?thesis by auto
qed

lemma distinct_envVars: "distinct (map fst (envVars fe))"
  unfolding envVars_def by (rule distinct_foldl_CreateDataProperty) simp

lemma String_replace_bracket:
  "CHR '']'' \<notin> set n \<Longrightarrow> String_replace (n @ '']'' @ rest) '']'' '''' = n @ rest"
  by (induction n) auto

lemma String_replace_prefix:
  "prefix p key \<Longrightarrow> p \<noteq> [] \<Longrightarrow> String_replace key p r = r @ drop (length p) key"
  by (cases key) auto

lemma envVarKey_wrapped:
  "CHR '']'' \<notin> set n \<Longrightarrow> envVarKey (''envVars['' @ n @ '']'') = n"
  using String_replace_bracket [of n "[]"] by (simp add: envVarKey_def)

lemma envVarKey_prefixed:
  "startsWith key ''envVars['' \<Longrightarrow> envVarKey key = String_replace (drop 8 key) '']'' []"
  using String_replace_prefix [of "''envVars[''" key "[]"]
  by (simp add: envVarKey_def startsWith_def eval_nat_numeral)

section \<open>The reshaper against its specification\<close>

lemma wellformed_key:
  assumes "CHR '']'' \<notin> set nm"
  shows "wrapped (''envVars['' @ nm @ '']'')"
    and "strip_wrapper (''envVars['' @ nm @ '']'') = nm"
  by (simp_all add: wrapped_def strip_wrapper_def suffix_def)

lemma foldl_filter_agree:
  assumes "\<And>k v. (k, v) \<in> set xs \<Longrightarrow> P k = Q k \<and> (Q k \<longrightarrow> f k = g k)"
  shows "foldl (\<lambda>acc (k, v). CreateDataProperty acc (f k) v) acc0 (filter (\<lambda>(k, v). P k) xs) =
         foldl (\<lambda>acc (k, v). CreateDataProperty acc (g k) v) acc0 (filter (\<lambda>(k, v). Q k) xs)"
  using assms
proof (induction xs arbitrary: acc0)
  case Nil
  show ?case by simp
next
  case (Cons p xs)
  obtain k v where p: "p = (k, v)" by (cases p)
  have here: "P k = Q k" "Q k \<Longrightarrow> f k = g k"
    using Cons.prems [of k v] by (simp_all add: p)
  have rest: "\<And>k v. (k, v) \<in> set xs \<Longrightarrow> P k = Q k \<and> (Q k \<longrightarrow> f k = g k)"
    using Cons.prems by (meson list.set_intros(2))
  show ?case
    using here Cons.IH [OF rest] by (simp add: p)
qed

lemma envVars_agrees_with_spec:
  assumes wf: "\<forall>k \<in> fst ` set fe. startsWith k ''envVars['' \<longrightarrow>
        (\<exists>nm. CHR '']'' \<notin> set nm \<and> k = ''envVars['' @ nm @ '']'')"
  shows "envVars fe = envVars_spec fe"
proof -
  have "startsWith k ''envVars['' = wrapped k \<and> (wrapped k \<longrightarrow> envVarKey k = strip_wrapper k)"
    if "(k, v) \<in> set fe" for k v
  proof (cases "startsWith k ''envVars[''")
    case True
    have "k \<in> fst ` set fe" using that by force
    with wf True obtain nm where nm: "CHR '']'' \<notin> set nm" "k = ''envVars['' @ nm @ '']''"
      by blast
    show ?thesis
      using True nm wellformed_key [OF nm(1)] envVarKey_wrapped [OF nm(1)] by simp
  next
    case False
    then show ?thesis by (simp add: startsWith_def wrapped_def)
  qed
  then show ?thesis
    unfolding envVars_def envVars_spec_def Object_entries_def
    by (intro foldl_filter_agree) blast
qed

lemma envVars_sole_key:
  assumes sole: "sole_key_for entries N"
    and last: "map_of (rev entries) (''envVars['' @ N @ '']'') = Some z"
  shows "map_of (envVars (Object_fromEntries entries)) N = Some z"
proof -
  define fe where "fe = Object_fromEntries entries"
  define k0 where "k0 = ''envVars['' @ N @ '']''"
  have nb: "CHR '']'' \<notin> set N"
    using sole by (simp add: sole_key_for_def)
  have key0: "envVarKey k0 = N"
    unfolding k0_def by (rule envVarKey_wrapped [OF nb])
  have sw0: "startsWith k0 ''envVars[''"
    by (simp add: k0_def startsWith_def)
  have only: "k = k0"
    if "k \<in> fst ` set entries" "startsWith k ''envVars[''" "envVarKey k = N" for k
    using sole that unfolding sole_key_for_def k0_def by blast
  have "map_of fe k0 = Some z"
    using last by (simp add: fe_def k0_def map_of_Object_fromEntries)
  then have mem: "(k0, z) \<in> set fe" by (rule map_of_SomeD)
  then have "k0 \<in> fst ` set fe" by (rule image_eqI [rotated]) simp
  with sw0 have "k0 \<in> {k \<in> fst ` set fe. startsWith k ''envVars[''}" by simp
  then have "envVarKey k0 \<in> fst ` set (envVars fe)"
    unfolding envVars_keys by (rule imageI)
  then have "N \<in> dom (map_of (envVars fe))"
    by (simp add: key0 dom_map_of_conv_image_fst)
  then obtain z' where z': "map_of (envVars fe) N = Some z'" by blast
  from envVars_lookup_source [OF z'] obtain k
    where k: "(k, z') \<in> set fe" "startsWith k ''envVars[''" "envVarKey k = N"
    by blast
  from k(1) have "k \<in> fst ` set fe" by (rule image_eqI [rotated]) simp
  then have "k \<in> fst ` set entries"
    by (simp add: fe_def keys_Object_fromEntries)
  then have "k = k0" using k(2,3) by (rule only)
  moreover have "distinct (map fst fe)"
    unfolding fe_def by (rule distinct_Object_fromEntries)
  ultimately have "z' = z"
    using k(1) mem eq_key_imp_eq_value by fastforce
  with z' show ?thesis by (simp add: fe_def)
qed

text \<open>
  C4, as the specification states it, fails on the code. The filter of the route tests
  the prefix only, and the second \<^verbatim>\<open>replace\<close> removes the first closing bracket, not the
  last character. The key \<^verbatim>\<open>envVars[FOO\<close> has no closing bracket, yet it contributes the
  variable \<^verbatim>\<open>FOO\<close>, where the reshaper of the specification yields nothing; and
  the key \<^verbatim>\<open>envVars[a]b]\<close>, which has the required shape, yields the name \<^verbatim>\<open>ab]\<close>
  where stripping the wrapper yields \<^verbatim>\<open>a]b\<close>.
\<close>

theorem reshaper_unwrapped_key_counterexample:
  "\<not> wrapped ''envVars[FOO'' \<and>
   envVars [(''envVars[FOO'', ''bar'')] = [(''FOO'', ''bar'')] \<and>
   envVars_spec [(''envVars[FOO'', ''bar'')] = [] \<and>
   wrapped ''envVars[a]b]'' \<and>
   envVars [(''envVars[a]b]'', ''x'')] = [(''ab]'', ''x'')] \<and>
   envVars_spec [(''envVars[a]b]'', ''x'')] = [(''a]b'', ''x'')]"
  by (simp add: envVars_def envVars_spec_def Object_entries_def startsWith_def envVarKey_def
      wrapped_def strip_wrapper_def suffix_def CreateDataProperty_def is_array_index_def
      is_digit_def)

text \<open>
  C4, amended. For every flat mapping \<open>fe\<close>, the variable names of the output are exactly
  the names derived from the keys of \<open>fe\<close> that start with \<^verbatim>\<open>envVars[\<close>, whether or not
  they end with a closing bracket, and every output entry carries the value of such a
  key; keys without the prefix contribute nothing. The name is recovered by removing the
  leading \<^verbatim>\<open>envVars[\<close> and then the first closing bracket that remains, if any; for a key
  \<^verbatim>\<open>envVars[NAME]\<close> whose \<open>NAME\<close> contains no closing bracket this is \<open>NAME\<close>. On a mapping
  whose prefixed keys all have that form, the code computes what the specification
  describes.
\<close>

theorem reshaper_entries:
  "dom (map_of (envVars fe)) = envVarKey ` {k \<in> fst ` set fe. startsWith k ''envVars[''} \<and>
   (map_of (envVars fe) n = Some v \<longrightarrow>
      (\<exists>k. (k, v) \<in> set fe \<and> startsWith k ''envVars['' \<and> envVarKey k = n)) \<and>
   (startsWith key ''envVars['' \<longrightarrow> envVarKey key = String_replace (drop 8 key) '']'' []) \<and>
   (CHR '']'' \<notin> set nm \<longrightarrow> envVarKey (''envVars['' @ nm @ '']'') = nm) \<and>
   ((\<forall>k \<in> fst ` set fe. startsWith k ''envVars['' \<longrightarrow>
        (\<exists>nm. CHR '']'' \<notin> set nm \<and> k = ''envVars['' @ nm @ '']'')) \<longrightarrow>
      envVars fe = envVars_spec fe)"
proof -
  have keys: "dom (map_of (envVars fe)) =
      envVarKey ` {k \<in> fst ` set fe. startsWith k ''envVars[''}"
    by (simp add: dom_map_of_conv_image_fst envVars_keys)
  show ?thesis
    using keys envVars_lookup_source [of fe n v] envVarKey_prefixed [of key]
      envVarKey_wrapped [of nm] envVars_agrees_with_spec [of fe]
    by blast
qed

text \<open>
  The amended C4 at the mapping \<^verbatim>\<open>{branch: "main", "envVars[FOO]": "bar"}\<close>.
\<close>

theorem reshaper_entries_witness:
  "map_of (envVars [(''branch'', ''main''), (''envVars[FOO]'', ''bar'')]) ''FOO'' = Some ''bar'' \<and>
   startsWith ''envVars[FOO]'' ''envVars['' \<and>
   CHR '']'' \<notin> set ''FOO'' \<and>
   envVarKey ''envVars[FOO]'' = ''FOO'' \<and>
   envVars [(''branch'', ''main''), (''envVars[FOO]'', ''bar'')] =
     envVars_spec [(''branch'', ''main''), (''envVars[FOO]'', ''bar'')]"
proof -
  have a: "startsWith ''envVars[FOO]'' ''envVars[''"
    by (simp add: startsWith_def)
  have b: "CHR '']'' \<notin> set ''FOO''" by simp
  have c: "\<forall>k \<in> fst ` set [(''branch'', ''main''), (''envVars[FOO]'', ''bar'')].
      startsWith k ''envVars['' \<longrightarrow>
        (\<exists>nm. CHR '']'' \<notin> set nm \<and> k = ''envVars['' @ nm @ '']'')"
    using b by (auto simp: startsWith_def)
  have d: "map_of (envVars [(''branch'', ''main''), (''envVars[FOO]'', ''bar'')]) ''FOO'' =
      Some ''bar''"
    by (simp add: envVars_def Object_entries_def startsWith_def envVarKey_def
        CreateDataProperty_def is_array_index_def is_digit_def)
  show ?thesis
    using a b c d
      reshaper_entries [of "[(''branch'', ''main''), (''envVars[FOO]'', ''bar'')]"
        "''FOO''" "''bar''" "''envVars[FOO]''" "''FOO''"]
    by simp
qed

text \<open>
  C5, as the specification states it, fails on the code. With \<open>A\<close> the name \<^verbatim>\<open>a]b\<close>, the
  entries \<^verbatim>\<open>envVars[a]b]=x\<close> and \<^verbatim>\<open>envVars[B]=y\<close> give an output that does not map \<open>A\<close> at
  all. And with a third entry \<^verbatim>\<open>envVars[A=z\<close> after \<^verbatim>\<open>envVars[A]=x\<close> and
  \<^verbatim>\<open>envVars[B]=y\<close>, both keys reduce to \<^verbatim>\<open>A\<close> and the output maps \<^verbatim>\<open>A\<close> to \<^verbatim>\<open>z\<close>.
\<close>

theorem reshaper_order_counterexample:
  "map_of (envVars (Object_fromEntries
      [(''envVars[a]b]'', ''x''), (''envVars[B]'', ''y'')])) ''a]b'' = None \<and>
   map_of (envVars (Object_fromEntries
      [(''envVars[A]'', ''x''), (''envVars[B]'', ''y''), (''envVars[A'', ''z'')])) ''A'' =
     Some ''z''"
  by (simp add: envVars_def Object_fromEntries_def Object_entries_def startsWith_def
      envVarKey_def CreateDataProperty_def is_array_index_def is_digit_def)

text \<open>
  C5, amended. Let \<open>A\<close> and \<open>B\<close> be names without a closing bracket, and let
  \<^verbatim>\<open>envVars[A]\<close> and \<^verbatim>\<open>envVars[B]\<close> be the only submitted keys that the reshaper reduces to
  \<open>A\<close> and to \<open>B\<close>. Then, wherever the entries stand in the submission, the output maps
  \<open>A\<close> to the value of the last occurrence of \<^verbatim>\<open>envVars[A]\<close> and \<open>B\<close> to the value of the
  last occurrence of \<^verbatim>\<open>envVars[B]\<close>.
\<close>

theorem reshaper_last_value_wins:
  assumes "sole_key_for entries A" and "sole_key_for entries B"
    and "map_of (rev entries) (''envVars['' @ A @ '']'') = Some x"
    and "map_of (rev entries) (''envVars['' @ B @ '']'') = Some y"
  shows "map_of (envVars (Object_fromEntries entries)) A = Some x \<and>
         map_of (envVars (Object_fromEntries entries)) B = Some y"
  using assms(1,3) assms(2,4) by (intro conjI envVars_sole_key)

text \<open>
  The amended C5 at a submission in which \<^verbatim>\<open>envVars[B]\<close> occurs twice, around
  \<^verbatim>\<open>envVars[A]\<close>.
\<close>

theorem reshaper_last_value_wins_witness:
  "sole_key_for [(''envVars[B]'', ''old''), (''envVars[A]'', ''x''), (''branch'', ''main''),
      (''envVars[B]'', ''y'')] ''A'' \<and>
   sole_key_for [(''envVars[B]'', ''old''), (''envVars[A]'', ''x''), (''branch'', ''main''),
      (''envVars[B]'', ''y'')] ''B'' \<and>
   map_of (envVars (Object_fromEntries
      [(''envVars[B]'', ''old''), (''envVars[A]'', ''x''), (''branch'', ''main''),
       (''envVars[B]'', ''y'')])) ''A'' = Some ''x'' \<and>
   map_of (envVars (Object_fromEntries
      [(''envVars[B]'', ''old''), (''envVars[A]'', ''x''), (''branch'', ''main''),
       (''envVars[B]'', ''y'')])) ''B'' = Some ''y''"
proof -
  let ?es = "[(''envVars[B]'', ''old''), (''envVars[A]'', ''x''), (''branch'', ''main''),
      (''envVars[B]'', ''y'')]"
  have a: "sole_key_for ?es ''A''" and b: "sole_key_for ?es ''B''"
    by (simp_all add: sole_key_for_def startsWith_def envVarKey_def)
  have x: "map_of (rev ?es) (''envVars['' @ ''A'' @ '']'') = Some ''x''"
    and y: "map_of (rev ?es) (''envVars['' @ ''B'' @ '']'') = Some ''y''"
    by simp_all
  show ?thesis
    using a b reshaper_last_value_wins [OF a b x y] by simp
qed

section \<open>The handler\<close>

lemmas handler_defs = action_def and_then_def invoke_def return_def throw_def formData_def
  parse_params_def FormData_get_def

lemmas reshape_defs = Object_fromEntries_def envVars_def Object_entries_def startsWith_def
  envVarKey_def CreateDataProperty_def is_array_index_def is_digit_def

lemma example_formEntries: "Object_fromEntries example_form = example_form"
  by (simp add: reshape_defs example_form_def)

lemma example_envVars: "envVars example_form = [(''FOO'', FText ''bar'')]"
  by (simp add: reshape_defs example_form_def)

lemma invalid_formEntries: "Object_fromEntries invalid_form = invalid_form"
  by (simp add: reshape_defs invalid_form_def)

lemma invalid_envVars: "envVars invalid_form = [(''FOO'', FText ''bar'')]"
  by (simp add: reshape_defs invalid_form_def)

lemma unknown_formEntries: "Object_fromEntries unknown_form = unknown_form"
  by (simp add: reshape_defs unknown_form_def)

lemma unknown_envVars: "envVars unknown_form = []"
  by (simp add: reshape_defs unknown_form_def)

lemma sample_params_values:
  "sample_params ''projectP'' = Some ''p1''"
  "sample_params ''organizationSlug'' = Some ''acme''"
  by (simp_all add: sample_params_def)

lemma sample_request_form: "form (sample_request entries) = Some entries"
  by (simp add: sample_request_def)

lemma sample_validate:
  "UpdateProjectSettings_validate sample_collaborators = validate sample_schema"
  by (simp add: sample_collaborators_def)

lemma sample_invalid:
  "validate sample_schema (Object_fromEntries invalid_form)
     (envVars (Object_fromEntries invalid_form)) = PayloadError [([''branch''], ''Required'')]"
  unfolding invalid_formEntries invalid_envVars
  by (simp add: validate_def sample_schema_def invalid_form_def)

lemma sample_valid:
  "validate sample_schema (Object_fromEntries example_form)
     (envVars (Object_fromEntries example_form)) =
   ValidationSuccess (example_form @ [(''FOO'', FText ''bar'')])"
  unfolding example_formEntries example_envVars
  by (simp add: validate_def sample_schema_def example_form_def)

lemma sample_update:
  "UpdateProjectSettings_call sample_collaborators p (example_form @ [(''FOO'', FText ''bar'')]) w =
     (Inr True, Suc w)"
  by (simp add: sample_collaborators_def example_form_def)

lemma sample_disable:
  "DisableProjectService_call sample_collaborators p w = (Inr \<lparr>name = ''my-repo''\<rparr>, Suc w)"
  by (simp add: sample_collaborators_def)

lemma sample_message:
  "setRequestSuccessMessage sample_collaborators request message w = (Inr message, w)"
  by (simp add: sample_collaborators_def)

lemma sample_cookie:
  "setToastMessageCookie sample_collaborators session w = (Inr (''Set-Cookie: '' @ session), w)"
  by (simp add: sample_collaborators_def)

lemma sample_header_value_ok: "header_value_ok sample_collaborators url"
  by (simp add: sample_collaborators_def)

lemma newline_params_values:
  "newline_params ''projectP'' = Some ''p1''"
  "newline_params ''organizationSlug'' = Some (''ac'' @ [CHR 0x0A] @ ''me'')"
  by (simp_all add: newline_params_def)

lemma removed_message_contains: "sublist project_name (removed_message project_name)"
  unfolding removed_message_def by (rule sublist_appendI)

lemma sample_destroy_run:
  "action sample_collaborators sample_params (sample_request destroy_form) start =
     (Inr \<lparr>status = 302, location = Some ''/orgs/acme/projects'',
           headers = Some (''Set-Cookie: '' @ removed_message ''my-repo''), body = None\<rparr>,
      \<lparr>world = Suc 0,
       calls = [Ev_formData, Ev_DisableProjectService_call ''p1'',
                Ev_setRequestSuccessMessage (removed_message ''my-repo''),
                Ev_setToastMessageCookie (removed_message ''my-repo'')]\<rparr>)"
  by (simp add: handler_defs sample_params_values sample_request_def destroy_form_def start_def
      sample_disable sample_message sample_cookie sample_header_value_ok redirect_def
      Location_accepted_def)

text \<open>
  C1. A submission whose \<^verbatim>\<open>action\<close> field is not \<^verbatim>\<open>destroy\<close> and for which the validator
  (modelled from the specification, around any schema) returns the payload-error
  variant: the handler returns a response with status 422 that carries the validator's
  list of errors, the list is not empty, the world is untouched, and none of the calls
  the handler has made is a call of the update orchestrator.
\<close>

theorem validation_failure_422:
  assumes "ps ''projectP'' = Some projectP" and "ps ''organizationSlug'' = Some organizationSlug"
    and "form req = Some formPayload"
    and "FormData_get formPayload ''action'' \<noteq> Some (FText ''destroy'')"
    and "UpdateProjectSettings_validate c = validate schema"
    and "validate schema (Object_fromEntries formPayload)
           (envVars (Object_fromEntries formPayload)) = PayloadError errors"
  shows "\<exists>resp evs. action c ps req r = (Inr resp, \<lparr>world = world r, calls = calls r @ evs\<rparr>) \<and>
           status resp = 422 \<and> body resp = Some (BodyValidationError errors) \<and>
           errors \<noteq> [] \<and> \<not> list_ex is_update_call evs"
proof -
  have "errors \<noteq> []"
    using assms(6) by (auto simp: validate_def split: schema_result.splits)
  moreover have "action c ps req r =
      (Inr (typedjson (BodyValidationError errors) 422 None),
       \<lparr>world = world r, calls = calls r @
          [Ev_formData,
           Ev_console_log (Object_fromEntries formPayload)
             (envVars (Object_fromEntries formPayload)),
           Ev_validate (Object_fromEntries formPayload)
             (envVars (Object_fromEntries formPayload))]\<rparr>)"
    using assms by (simp add: handler_defs Let_def)
  ultimately show ?thesis
    by (simp add: typedjson_def)
qed

text \<open>C1 at the sample submission with an empty branch.\<close>

theorem validation_failure_422_witness:
  "sample_params ''projectP'' = Some ''p1'' \<and>
   sample_params ''organizationSlug'' = Some ''acme'' \<and>
   form (sample_request invalid_form) = Some invalid_form \<and>
   FormData_get invalid_form ''action'' \<noteq> Some (FText ''destroy'') \<and>
   UpdateProjectSettings_validate sample_collaborators = validate sample_schema \<and>
   validate sample_schema (Object_fromEntries invalid_form)
     (envVars (Object_fromEntries invalid_form)) = PayloadError [([''branch''], ''Required'')] \<and>
   (\<exists>resp evs. action sample_collaborators sample_params (sample_request invalid_form) start =
        (Inr resp, \<lparr>world = world start, calls = calls start @ evs\<rparr>) \<and>
      status resp = 422 \<and>
      body resp = Some (BodyValidationError [([''branch''], ''Required'')]) \<and>
      [([''branch''], ''Required'')] \<noteq> ([] :: issue list) \<and> \<not> list_ex is_update_call evs)"
proof -
  have get: "FormData_get invalid_form ''action'' \<noteq> Some (FText ''destroy'')"
    by (simp add: FormData_get_def invalid_form_def)
  note inst = validation_failure_422 [OF sample_params_values sample_request_form get
      sample_validate sample_invalid, where r = start]
  show ?thesis
    by (intro conjI sample_params_values sample_request_form get sample_validate
        sample_invalid inst)
qed

text \<open>
  C2, as the specification states it, fails on the code: the redirect is not returned
  for every request. With an organization slug that holds a line feed, the example
  submission passes validation and the update orchestrator runs and reports a
  deployment, but \<^verbatim>\<open>redirect\<close> cannot set the Location header and the handler ends with
  a \<^verbatim>\<open>TypeError\<close> instead of a response.
\<close>

theorem save_redirect_counterexample:
  "FormData_get example_form ''action'' \<noteq> Some (FText ''destroy'') \<and>
   UpdateProjectSettings_validate sample_collaborators (Object_fromEntries example_form)
     (envVars (Object_fromEntries example_form)) =
     ValidationSuccess (example_form @ [(''FOO'', FText ''bar'')]) \<and>
   action sample_collaborators newline_params (sample_request example_form) start =
     (Inl TypeError,
      \<lparr>world = Suc 0,
       calls =
         [Ev_formData,
          Ev_console_log example_form [(''FOO'', FText ''bar'')],
          Ev_validate example_form [(''FOO'', FText ''bar'')],
          Ev_UpdateProjectSettings_call ''p1'' (example_form @ [(''FOO'', FText ''bar'')]),
          Ev_setRequestSuccessMessage (updated_message True),
          Ev_setToastMessageCookie (updated_message True)]\<rparr>)"
proof -
  have get: "FormData_get example_form ''action'' \<noteq> Some (FText ''destroy'')"
    by (simp add: FormData_get_def example_form_def)
  have ok: "UpdateProjectSettings_validate sample_collaborators (Object_fromEntries example_form)
      (envVars (Object_fromEntries example_form)) =
      ValidationSuccess (example_form @ [(''FOO'', FText ''bar'')])"
    by (simp only: sample_validate sample_valid)
  have ok': "UpdateProjectSettings_validate sample_collaborators example_form
      [(''FOO'', FText ''bar'')] = ValidationSuccess (example_form @ [(''FOO'', FText ''bar'')])"
    using ok by (simp only: example_formEntries example_envVars)
  have run: "action sample_collaborators newline_params (sample_request example_form) start =
     (Inl TypeError,
      \<lparr>world = Suc 0,
       calls =
         [Ev_formData,
          Ev_console_log example_form [(''FOO'', FText ''bar'')],
          Ev_validate example_form [(''FOO'', FText ''bar'')],
          Ev_UpdateProjectSettings_call ''p1'' (example_form @ [(''FOO'', FText ''bar'')]),
          Ev_setRequestSuccessMessage (updated_message True),
          Ev_setToastMessageCookie (updated_message True)]\<rparr>)"
    using get
    by (simp add: handler_defs Let_def newline_params_values sample_request_def start_def
        example_formEntries example_envVars ok' sample_update sample_message sample_cookie
        redirect_def Location_accepted_def)
  show ?thesis
    by (intro conjI get ok run)
qed

text \<open>
  C2, amended. A submission that takes the update path and passes validation, with
  collaborators that return: the update orchestrator is called once, with the project
  identifier and the validated data. When it returns false the handler returns a
  response with status 200, the success marker and the cookie headers that the
  toast-cookie encoder made from the session of the flash message. When it returns true
  and \<^verbatim>\<open>/orgs/{organizationSlug}/projects/{projectP}\<close> is accepted as a Location header (it
  holds no carriage return and no line feed, and the platform accepts it), the handler
  returns a response with status 302, that Location and those cookie headers; when the
  Location is not accepted, the handler fails with a \<^verbatim>\<open>TypeError\<close> after the same calls.
\<close>

theorem save_valid_payload:
  assumes "ps ''projectP'' = Some projectP" and "ps ''organizationSlug'' = Some organizationSlug"
    and "form req = Some formPayload"
    and "FormData_get formPayload ''action'' \<noteq> Some (FText ''destroy'')"
    and "UpdateProjectSettings_validate c (Object_fromEntries formPayload)
           (envVars (Object_fromEntries formPayload)) = ValidationSuccess d"
    and "UpdateProjectSettings_call c projectP d (world r) = (Inr isDeploying, w1)"
    and "setRequestSuccessMessage c req (updated_message isDeploying) w1 = (Inr session, w2)"
    and "setToastMessageCookie c session w2 = (Inr hdrs, w3)"
  shows "let url = ''/orgs/'' @ organizationSlug @ ''/projects/'' @ projectP in
         action c ps req r =
           (if \<not> isDeploying
            then Inr \<lparr>status = 200, location = None, headers = Some hdrs,
                      body = Some BodySuccess\<rparr>
            else if CHR 0x0D \<notin> set url \<and> CHR 0x0A \<notin> set url \<and> header_value_ok c url
            then Inr \<lparr>status = 302, location = Some url, headers = Some hdrs, body = None\<rparr>
            else Inl TypeError,
            \<lparr>world = w3,
             calls = calls r @
               [Ev_formData,
                Ev_console_log (Object_fromEntries formPayload)
                  (envVars (Object_fromEntries formPayload)),
                Ev_validate (Object_fromEntries formPayload)
                  (envVars (Object_fromEntries formPayload)),
                Ev_UpdateProjectSettings_call projectP d,
                Ev_setRequestSuccessMessage (updated_message isDeploying),
                Ev_setToastMessageCookie session]\<rparr>)"
  using assms
  by (cases isDeploying)
    (simp_all add: handler_defs Let_def redirect_def Location_accepted_def typedjson_def)

text \<open>The amended C2 at the example submission, where the sample update deploys.\<close>

theorem save_valid_payload_witness:
  "sample_params ''projectP'' = Some ''p1'' \<and>
   sample_params ''organizationSlug'' = Some ''acme'' \<and>
   form (sample_request example_form) = Some example_form \<and>
   FormData_get example_form ''action'' \<noteq> Some (FText ''destroy'') \<and>
   UpdateProjectSettings_validate sample_collaborators (Object_fromEntries example_form)
     (envVars (Object_fromEntries example_form)) =
     ValidationSuccess (example_form @ [(''FOO'', FText ''bar'')]) \<and>
   UpdateProjectSettings_call sample_collaborators ''p1''
     (example_form @ [(''FOO'', FText ''bar'')]) (world start) = (Inr True, Suc 0) \<and>
   setRequestSuccessMessage sample_collaborators (sample_request example_form)
     (updated_message True) (Suc 0) = (Inr (updated_message True), Suc 0) \<and>
   setToastMessageCookie sample_collaborators (updated_message True) (Suc 0) =
     (Inr (''Set-Cookie: '' @ updated_message True), Suc 0) \<and>
   action sample_collaborators sample_params (sample_request example_form) start =
     (Inr \<lparr>status = 302, location = Some ''/orgs/acme/projects/p1'',
           headers = Some (''Set-Cookie: '' @ updated_message True), body = None\<rparr>,
      \<lparr>world = Suc 0,
       calls = calls start @
         [Ev_formData,
          Ev_console_log (Object_fromEntries example_form)
            (envVars (Object_fromEntries example_form)),
          Ev_validate (Object_fromEntries example_form)
            (envVars (Object_fromEntries example_form)),
          Ev_UpdateProjectSettings_call ''p1'' (example_form @ [(''FOO'', FText ''bar'')]),
          Ev_setRequestSuccessMessage (updated_message True),
          Ev_setToastMessageCookie (updated_message True)]\<rparr>)"
proof -
  have get: "FormData_get example_form ''action'' \<noteq> Some (FText ''destroy'')"
    by (simp add: FormData_get_def example_form_def)
  have ok: "UpdateProjectSettings_validate sample_collaborators (Object_fromEntries example_form)
      (envVars (Object_fromEntries example_form)) =
      ValidationSuccess (example_form @ [(''FOO'', FText ''bar'')])"
    by (simp only: sample_validate sample_valid)
  have upd: "UpdateProjectSettings_call sample_collaborators ''p1''
      (example_form @ [(''FOO'', FText ''bar'')]) (world start) = (Inr True, Suc 0)"
    by (simp add: sample_update start_def)
  have msg: "setRequestSuccessMessage sample_collaborators (sample_request example_form)
      (updated_message True) (Suc 0) = (Inr (updated_message True), Suc 0)"
    by (rule sample_message)
  have cookie: "setToastMessageCookie sample_collaborators (updated_message True) (Suc 0) =
      (Inr (''Set-Cookie: '' @ updated_message True), Suc 0)"
    by (rule sample_cookie)
  note inst = save_valid_payload [OF sample_params_values sample_request_form get ok upd msg
      cookie]
  have run: "action sample_collaborators sample_params (sample_request example_form) start =
     (Inr \<lparr>status = 302, location = Some ''/orgs/acme/projects/p1'',
           headers = Some (''Set-Cookie: '' @ updated_message True), body = None\<rparr>,
      \<lparr>world = Suc 0,
       calls = calls start @
         [Ev_formData,
          Ev_console_log (Object_fromEntries example_form)
            (envVars (Object_fromEntries example_form)),
          Ev_validate (Object_fromEntries example_form)
            (envVars (Object_fromEntries example_form)),
          Ev_UpdateProjectSettings_call ''p1'' (example_form @ [(''FOO'', FText ''bar'')]),
          Ev_setRequestSuccessMessage (updated_message True),
          Ev_setToastMessageCookie (updated_message True)]\<rparr>)"
    using inst by (simp add: Let_def sample_header_value_ok)
  show ?thesis
    by (intro conjI sample_params_values sample_request_form get ok upd msg cookie run)
qed

text \<open>
  C3, as the specification states it, fails on the code: the redirect is not returned
  for every removal request. With an organization slug that holds a line feed the
  project is disabled and the flash message is encoded, but \<^verbatim>\<open>redirect\<close> cannot set
  the Location header and the handler ends with a \<^verbatim>\<open>TypeError\<close> instead of a response.
\<close>

theorem destroy_redirect_counterexample:
  "FormData_get destroy_form ''action'' = Some (FText ''destroy'') \<and>
   newline_params ''organizationSlug'' = Some (''ac'' @ [CHR 0x0A] @ ''me'') \<and>
   action sample_collaborators newline_params (sample_request destroy_form) start =
     (Inl TypeError,
      \<lparr>world = Suc 0,
       calls = [Ev_formData, Ev_DisableProjectService_call ''p1'',
                Ev_setRequestSuccessMessage (removed_message ''my-repo''),
                Ev_setToastMessageCookie (removed_message ''my-repo'')]\<rparr>)"
proof -
  have get: "FormData_get destroy_form ''action'' = Some (FText ''destroy'')"
    by (simp add: FormData_get_def destroy_form_def)
  have run: "action sample_collaborators newline_params (sample_request destroy_form) start =
     (Inl TypeError,
      \<lparr>world = Suc 0,
       calls = [Ev_formData, Ev_DisableProjectService_call ''p1'',
                Ev_setRequestSuccessMessage (removed_message ''my-repo''),
                Ev_setToastMessageCookie (removed_message ''my-repo'')]\<rparr>)"
    using get
    by (simp add: handler_defs newline_params_values sample_request_def start_def
        sample_disable sample_message sample_cookie redirect_def Location_accepted_def)
  show ?thesis
    by (intro conjI get newline_params_values run)
qed

text \<open>
  C3, amended. A submission whose \<^verbatim>\<open>action\<close> field is \<^verbatim>\<open>destroy\<close>: after reading the form
  the handler calls the disable orchestrator with the project identifier, and whatever
  happens next it calls neither the update orchestrator nor the validator. When the
  collaborators return, the flash message is
  \<^verbatim>\<open>Repository NAME has been removed and will no longer be deployed.\<close>, which contains
  the \<open>NAME\<close> of the project that the disable orchestrator returned; and when
  \<^verbatim>\<open>/orgs/{organizationSlug}/projects\<close> is accepted as a Location header (it holds no
  carriage return and no line feed, and the platform accepts it), the handler returns
  a response with status 302, that Location and the cookie headers that the
  toast-cookie encoder made from the session of that message; when the Location is not
  accepted, the handler fails with a \<^verbatim>\<open>TypeError\<close> after the same calls.
\<close>

theorem destroy_redirects:
  assumes "ps ''projectP'' = Some projectP" and "ps ''organizationSlug'' = Some organizationSlug"
    and "form req = Some formPayload"
    and "FormData_get formPayload ''action'' = Some (FText ''destroy'')"
  shows "(\<exists>evs. calls (snd (action c ps req r)) =
             calls r @ Ev_formData # Ev_DisableProjectService_call projectP # evs \<and>
           \<not> list_ex is_update_call evs \<and> \<not> list_ex is_validate_call evs) \<and>
         (DisableProjectService_call c projectP (world r) = (Inr project, w1) \<longrightarrow>
          setRequestSuccessMessage c req (removed_message (name project)) w1 = (Inr session, w2) \<longrightarrow>
          setToastMessageCookie c session w2 = (Inr hdrs, w3) \<longrightarrow>
          (let url = ''/orgs/'' @ organizationSlug @ ''/projects'' in
           action c ps req r =
             (if CHR 0x0D \<notin> set url \<and> CHR 0x0A \<notin> set url \<and> header_value_ok c url
              then Inr \<lparr>status = 302, location = Some url, headers = Some hdrs, body = None\<rparr>
              else Inl TypeError,
              \<lparr>world = w3,
               calls = calls r @
                 [Ev_formData, Ev_DisableProjectService_call projectP,
                  Ev_setRequestSuccessMessage (removed_message (name project)),
                  Ev_setToastMessageCookie session]\<rparr>)) \<and>
          removed_message (name project) =
            ''Repository '' @ name project @
            '' has been removed and will no longer be deployed.'' \<and>
          sublist (name project) (removed_message (name project)))"
proof -
  have trace: "\<exists>evs. calls (snd (action c ps req r)) =
             calls r @ Ev_formData # Ev_DisableProjectService_call projectP # evs \<and>
           \<not> list_ex is_update_call evs \<and> \<not> list_ex is_validate_call evs"
    using assms
    by (auto simp: handler_defs split: sum.splits prod.splits)
  have run: "let url = ''/orgs/'' @ organizationSlug @ ''/projects'' in
           action c ps req r =
             (if CHR 0x0D \<notin> set url \<and> CHR 0x0A \<notin> set url \<and> header_value_ok c url
              then Inr \<lparr>status = 302, location = Some url, headers = Some hdrs, body = None\<rparr>
              else Inl TypeError,
              \<lparr>world = w3,
               calls = calls r @
                 [Ev_formData, Ev_DisableProjectService_call projectP,
                  Ev_setRequestSuccessMessage (removed_message (name project)),
                  Ev_setToastMessageCookie session]\<rparr>)"
    if "DisableProjectService_call c projectP (world r) = (Inr project, w1)"
      and "setRequestSuccessMessage c req (removed_message (name project)) w1 = (Inr session, w2)"
      and "setToastMessageCookie c session w2 = (Inr hdrs, w3)"
    using assms that
    by (simp add: handler_defs Let_def redirect_def Location_accepted_def)
  have wording: "removed_message (name project) =
      ''Repository '' @ name project @ '' has been removed and will no longer be deployed.''"
    by (simp add: removed_message_def)
  show ?thesis
    using trace run wording removed_message_contains [of "name project"] by blast
qed

text \<open>The amended C3 at the sample removal request.\<close>

theorem destroy_redirects_witness:
  "sample_params ''projectP'' = Some ''p1'' \<and>
   sample_params ''organizationSlug'' = Some ''acme'' \<and>
   form (sample_request destroy_form) = Some destroy_form \<and>
   FormData_get destroy_form ''action'' = Some (FText ''destroy'') \<and>
   DisableProjectService_call sample_collaborators ''p1'' (world start) =
     (Inr \<lparr>name = ''my-repo''\<rparr>, Suc 0) \<and>
   setRequestSuccessMessage sample_collaborators (sample_request destroy_form)
     (removed_message (name \<lparr>name = ''my-repo''\<rparr>)) (Suc 0) =
     (Inr (removed_message ''my-repo''), Suc 0) \<and>
   setToastMessageCookie sample_collaborators (removed_message ''my-repo'') (Suc 0) =
     (Inr (''Set-Cookie: '' @ removed_message ''my-repo''), Suc 0) \<and>
   action sample_collaborators sample_params (sample_request destroy_form) start =
     (Inr \<lparr>status = 302, location = Some ''/orgs/acme/projects'',
           headers = Some (''Set-Cookie: '' @ removed_message ''my-repo''), body = None\<rparr>,
      \<lparr>world = Suc 0,
       calls = calls start @
         [Ev_formData, Ev_DisableProjectService_call ''p1'',
          Ev_setRequestSuccessMessage (removed_message (name \<lparr>name = ''my-repo''\<rparr>)),
          Ev_setToastMessageCookie (removed_message ''my-repo'')]\<rparr>) \<and>
   sublist ''my-repo'' (removed_message (name \<lparr>name = ''my-repo''\<rparr>))"
proof -
  have get: "FormData_get destroy_form ''action'' = Some (FText ''destroy'')"
    by (simp add: FormData_get_def destroy_form_def)
  have dis: "DisableProjectService_call sample_collaborators ''p1'' (world start) =
      (Inr \<lparr>name = ''my-repo''\<rparr>, Suc 0)"
    by (simp add: sample_disable start_def)
  have msg: "setRequestSuccessMessage sample_collaborators (sample_request destroy_form)
      (removed_message (name \<lparr>name = ''my-repo''\<rparr>)) (Suc 0) =
      (Inr (removed_message ''my-repo''), Suc 0)"
    by (simp add: sample_message)
  have cookie: "setToastMessageCookie sample_collaborators (removed_message ''my-repo'') (Suc 0) =
      (Inr (''Set-Cookie: '' @ removed_message ''my-repo''), Suc 0)"
    by (rule sample_cookie)
  note inst = destroy_redirects [OF sample_params_values sample_request_form get,
      where c = sample_collaborators and r = start and project = "\<lparr>name = ''my-repo''\<rparr>"
        and ?w1.0 = "Suc 0" and session = "removed_message ''my-repo''" and ?w2.0 = "Suc 0"
        and hdrs = "''Set-Cookie: '' @ removed_message ''my-repo''" and ?w3.0 = "Suc 0"]
  from inst dis msg cookie
  have both: "(let url = ''/orgs/'' @ ''acme'' @ ''/projects'' in
      action sample_collaborators sample_params (sample_request destroy_form) start =
        (if CHR 0x0D \<notin> set url \<and> CHR 0x0A \<notin> set url \<and>
            header_value_ok sample_collaborators url
         then Inr \<lparr>status = 302, location = Some url,
                   headers = Some (''Set-Cookie: '' @ removed_message ''my-repo''),
                   body = None\<rparr>
         else Inl TypeError,
         \<lparr>world = Suc 0,
          calls = calls start @
            [Ev_formData, Ev_DisableProjectService_call ''p1'',
             Ev_setRequestSuccessMessage (removed_message (name \<lparr>name = ''my-repo''\<rparr>)),
             Ev_setToastMessageCookie (removed_message ''my-repo'')]\<rparr>)) \<and>
      removed_message (name \<lparr>name = ''my-repo''\<rparr>) =
        ''Repository '' @ name \<lparr>name = ''my-repo''\<rparr> @
        '' has been removed and will no longer be deployed.'' \<and>
      sublist (name \<lparr>name = ''my-repo''\<rparr>) (removed_message (name \<lparr>name = ''my-repo''\<rparr>))"
    by blast
  have run: "action sample_collaborators sample_params (sample_request destroy_form) start =
     (Inr \<lparr>status = 302, location = Some ''/orgs/acme/projects'',
           headers = Some (''Set-Cookie: '' @ removed_message ''my-repo''), body = None\<rparr>,
      \<lparr>world = Suc 0,
       calls = calls start @
         [Ev_formData, Ev_DisableProjectService_call ''p1'',
          Ev_setRequestSuccessMessage (removed_message (name \<lparr>name = ''my-repo''\<rparr>)),
          Ev_setToastMessageCookie (removed_message ''my-repo'')]\<rparr>)"
    using conjunct1 [OF both] by (simp add: Let_def sample_header_value_ok)
  have contains: "sublist ''my-repo'' (removed_message (name \<lparr>name = ''my-repo''\<rparr>))"
    using conjunct2 [OF conjunct2 [OF both]] by simp
  show ?thesis
    by (intro conjI sample_params_values sample_request_form get dis msg cookie run contains)
qed

text \<open>
  C6. The example submission of the specification. The validator is called with the
  flat mapping of the six submitted fields, unchanged (the scalar fields, and with them
  \<^verbatim>\<open>action\<close> and the bracket-notation key), together with the reshaped mapping
  \<^verbatim>\<open>{FOO: "bar"}\<close>; when it returns the success variant, the next call is the update
  orchestrator, with the project identifier and the validated data.
\<close>

theorem example_submission:
  assumes "ps ''projectP'' = Some projectP" and "ps ''organizationSlug'' = Some organizationSlug"
    and "form req = Some example_form"
  shows "\<exists>evs. calls (snd (action c ps req r)) =
           calls r @
             [Ev_formData,
              Ev_console_log example_form [(''FOO'', FText ''bar'')],
              Ev_validate example_form [(''FOO'', FText ''bar'')]] @ evs \<and>
           (\<forall>d. UpdateProjectSettings_validate c example_form [(''FOO'', FText ''bar'')] =
                  ValidationSuccess d \<longrightarrow>
                (\<exists>evs'. evs = Ev_UpdateProjectSettings_call projectP d # evs'))"
proof -
  have get: "FormData_get example_form ''action'' \<noteq> Some (FText ''destroy'')"
    by (simp add: FormData_get_def example_form_def)
  show ?thesis
    using assms get
    by (auto simp: handler_defs Let_def example_formEntries example_envVars
        split: sum.splits prod.splits validation.splits)
qed

text \<open>C6 with the sample collaborators, whose validator accepts the example.\<close>

theorem example_submission_witness:
  "sample_params ''projectP'' = Some ''p1'' \<and>
   sample_params ''organizationSlug'' = Some ''acme'' \<and>
   form (sample_request example_form) = Some example_form \<and>
   UpdateProjectSettings_validate sample_collaborators example_form [(''FOO'', FText ''bar'')] =
     ValidationSuccess (example_form @ [(''FOO'', FText ''bar'')]) \<and>
   (\<exists>evs. calls (snd (action sample_collaborators sample_params
                        (sample_request example_form) start)) =
           calls start @
             [Ev_formData,
              Ev_console_log example_form [(''FOO'', FText ''bar'')],
              Ev_validate example_form [(''FOO'', FText ''bar'')]] @ evs \<and>
           (\<forall>d. UpdateProjectSettings_validate sample_collaborators example_form
                  [(''FOO'', FText ''bar'')] = ValidationSuccess d \<longrightarrow>
                (\<exists>evs'. evs = Ev_UpdateProjectSettings_call ''p1'' d # evs')))"
proof -
  have ok: "UpdateProjectSettings_validate sample_collaborators example_form
      [(''FOO'', FText ''bar'')] = ValidationSuccess (example_form @ [(''FOO'', FText ''bar'')])"
    using sample_valid by (simp only: sample_validate example_formEntries example_envVars)
  note inst = example_submission [OF sample_params_values sample_request_form,
      where c = sample_collaborators and r = start]
  show ?thesis
    by (intro conjI sample_params_values sample_request_form ok inst)
qed

text \<open>
  C7. Whenever the handler returns a response, the response is one of three: a redirect,
  that is status 302 with a Location (the project list or the project view of the
  organization), no body, and the cookie headers that the toast-cookie encoder
  produced; or status 200 with the success marker and such cookie headers; or status
  422 with the list of validation errors and no headers.
\<close>

theorem terminal_outcomes:
  assumes "action c ps req r = (Inr resp, r')"
  shows "(\<exists>url hdrs session w w' projectP organizationSlug.
            resp = \<lparr>status = 302, location = Some url, headers = Some hdrs, body = None\<rparr> \<and>
            setToastMessageCookie c session w = (Inr hdrs, w') \<and>
            ps ''projectP'' = Some projectP \<and> ps ''organizationSlug'' = Some organizationSlug \<and>
            (url = ''/orgs/'' @ organizationSlug @ ''/projects'' \<or>
             url = ''/orgs/'' @ organizationSlug @ ''/projects/'' @ projectP)) \<or>
         (\<exists>hdrs session w w'.
            resp = \<lparr>status = 200, location = None, headers = Some hdrs,
                    body = Some BodySuccess\<rparr> \<and>
            setToastMessageCookie c session w = (Inr hdrs, w')) \<or>
         (\<exists>errors.
            resp = \<lparr>status = 422, location = None, headers = None,
                    body = Some (BodyValidationError errors)\<rparr>)"
  using assms
  by (auto simp: handler_defs Let_def redirect_def typedjson_def
      split: sum.splits prod.splits option.splits if_splits validation.splits)

text \<open>C7 at the sample removal request, which ends in a redirect.\<close>

theorem terminal_outcomes_witness:
  "action sample_collaborators sample_params (sample_request destroy_form) start =
     (Inr \<lparr>status = 302, location = Some ''/orgs/acme/projects'',
           headers = Some (''Set-Cookie: '' @ removed_message ''my-repo''), body = None\<rparr>,
      \<lparr>world = Suc 0,
       calls = [Ev_formData, Ev_DisableProjectService_call ''p1'',
                Ev_setRequestSuccessMessage (removed_message ''my-repo''),
                Ev_setToastMessageCookie (removed_message ''my-repo'')]\<rparr>) \<and>
   ((\<exists>url hdrs session w w' projectP organizationSlug.
        \<lparr>status = 302, location = Some ''/orgs/acme/projects'',
         headers = Some (''Set-Cookie: '' @ removed_message ''my-repo''), body = None\<rparr> =
          \<lparr>status = 302, location = Some url, headers = Some hdrs, body = None\<rparr> \<and>
        setToastMessageCookie sample_collaborators session w = (Inr hdrs, w') \<and>
        sample_params ''projectP'' = Some projectP \<and>
        sample_params ''organizationSlug'' = Some organizationSlug \<and>
        (url = ''/orgs/'' @ organizationSlug @ ''/projects'' \<or>
         url = ''/orgs/'' @ organizationSlug @ ''/projects/'' @ projectP)) \<or>
    (\<exists>hdrs session w w'.
        \<lparr>status = 302, location = Some ''/orgs/acme/projects'',
         headers = Some (''Set-Cookie: '' @ removed_message ''my-repo''), body = None\<rparr> =
          \<lparr>status = 200, location = None, headers = Some hdrs, body = Some BodySuccess\<rparr> \<and>
        setToastMessageCookie sample_collaborators session w = (Inr hdrs, w')) \<or>
    (\<exists>errors.
        \<lparr>status = 302, location = Some ''/orgs/acme/projects'',
         headers = Some (''Set-Cookie: '' @ removed_message ''my-repo''), body = None\<rparr> =
          \<lparr>status = 422, location = None, headers = None,
           body = Some (BodyValidationError errors)\<rparr>))"
  by (intro conjI sample_destroy_run terminal_outcomes [OF sample_destroy_run])

text \<open>
  C8. When the route parameters lack \<^verbatim>\<open>projectP\<close> or \<^verbatim>\<open>organizationSlug\<close>, the handler
  fails with the schema error for the missing parameters, and nothing has happened: the
  record of calls and the world are what they were, so the form body was not read and
  no collaborator was called.
\<close>

theorem malformed_params_fail_fast:
  assumes "ps ''projectP'' = None \<or> ps ''organizationSlug'' = None"
  shows "\<exists>missing. missing \<noteq> [] \<and> action c ps req r = (Inl (ZodError missing), r)"
  using assms by (auto simp: handler_defs split: option.splits)

text \<open>C8 at a request whose parameters hold \<^verbatim>\<open>projectP\<close> only.\<close>

theorem malformed_params_fail_fast_witness:
  "([''projectP'' \<mapsto> ''p1''] ''projectP'' = None \<or>
    [''projectP'' \<mapsto> ''p1''] ''organizationSlug'' = None) \<and>
   (\<exists>missing. missing \<noteq> [] \<and>
      action sample_collaborators [''projectP'' \<mapsto> ''p1''] (sample_request destroy_form) start =
        (Inl (ZodError missing), start))"
proof -
  have h: "[''projectP'' \<mapsto> ''p1''] ''projectP'' = None \<or>
      [''projectP'' \<mapsto> ''p1''] ''organizationSlug'' = None"
    by simp
  show ?thesis
    by (intro conjI h malformed_params_fail_fast [OF h])
qed

text \<open>
  C9. Whatever the \<^verbatim>\<open>action\<close> field holds, if it is not exactly the string \<^verbatim>\<open>destroy\<close>
  (be it \<^verbatim>\<open>save\<close>, another string, a file, or absent), the handler reshapes the
  submission and calls the validator; the disable orchestrator is never called; on a
  payload error the handler answers 422 with the errors, and on success its next call
  is the update orchestrator with the project identifier and the validated data.
\<close>

theorem other_actions_take_update_path:
  assumes "ps ''projectP'' = Some projectP" and "ps ''organizationSlug'' = Some organizationSlug"
    and "form req = Some formPayload"
    and "FormData_get formPayload ''action'' \<noteq> Some (FText ''destroy'')"
  shows "\<exists>evs. calls (snd (action c ps req r)) =
           calls r @
             [Ev_formData,
              Ev_console_log (Object_fromEntries formPayload)
                (envVars (Object_fromEntries formPayload)),
              Ev_validate (Object_fromEntries formPayload)
                (envVars (Object_fromEntries formPayload))] @ evs \<and>
           \<not> list_ex is_disable_call evs \<and>
           (case UpdateProjectSettings_validate c (Object_fromEntries formPayload)
                   (envVars (Object_fromEntries formPayload)) of
              PayloadError errors \<Rightarrow>
                evs = [] \<and>
                fst (action c ps req r) = Inr (typedjson (BodyValidationError errors) 422 None)
            | ValidationSuccess d \<Rightarrow>
                (\<exists>evs'. evs = Ev_UpdateProjectSettings_call projectP d # evs'))"
  using assms
  by (auto simp: handler_defs Let_def split: sum.splits prod.splits validation.splits)

text \<open>C9 at a submission whose \<^verbatim>\<open>action\<close> field is the unknown value \<^verbatim>\<open>archive\<close>.\<close>

theorem other_actions_take_update_path_witness:
  "sample_params ''projectP'' = Some ''p1'' \<and>
   sample_params ''organizationSlug'' = Some ''acme'' \<and>
   form (sample_request unknown_form) = Some unknown_form \<and>
   FormData_get unknown_form ''action'' \<noteq> Some (FText ''destroy'') \<and>
   (\<exists>evs. calls (snd (action sample_collaborators sample_params
                        (sample_request unknown_form) start)) =
           calls start @
             [Ev_formData,
              Ev_console_log (Object_fromEntries unknown_form)
                (envVars (Object_fromEntries unknown_form)),
              Ev_validate (Object_fromEntries unknown_form)
                (envVars (Object_fromEntries unknown_form))] @ evs \<and>
           \<not> list_ex is_disable_call evs \<and>
           (case UpdateProjectSettings_validate sample_collaborators
                   (Object_fromEntries unknown_form)
                   (envVars (Object_fromEntries unknown_form)) of
              PayloadError errors \<Rightarrow>
                evs = [] \<and>
                fst (action sample_collaborators sample_params
                       (sample_request unknown_form) start) =
                  Inr (typedjson (BodyValidationError errors) 422 None)
            | ValidationSuccess d \<Rightarrow>
                (\<exists>evs'. evs = Ev_UpdateProjectSettings_call ''p1'' d # evs')))"
proof -
  have get: "FormData_get unknown_form ''action'' \<noteq> Some (FText ''destroy'')"
    by (simp add: FormData_get_def unknown_form_def)
  note inst = other_actions_take_update_path [OF sample_params_values sample_request_form get,
      where c = sample_collaborators and r = start]
  show ?thesis
    by (intro conjI sample_params_values sample_request_form get inst)
qed

text \<open>
  C10. On the validation-failure path the handler has read the form, logged and called
  the validator, and nothing else: no orchestrator and no flash-message or cookie
  encoder is called, the world is unchanged, and the 422 response has no headers.
\<close>

theorem validation_failure_no_side_effects:
  assumes "ps ''projectP'' = Some projectP" and "ps ''organizationSlug'' = Some organizationSlug"
    and "form req = Some formPayload"
    and "FormData_get formPayload ''action'' \<noteq> Some (FText ''destroy'')"
    and "UpdateProjectSettings_validate c (Object_fromEntries formPayload)
           (envVars (Object_fromEntries formPayload)) = PayloadError errors"
  shows "\<exists>resp. action c ps req r =
           (Inr resp,
            \<lparr>world = world r,
             calls = calls r @
               [Ev_formData,
                Ev_console_log (Object_fromEntries formPayload)
                  (envVars (Object_fromEntries formPayload)),
                Ev_validate (Object_fromEntries formPayload)
                  (envVars (Object_fromEntries formPayload))]\<rparr>) \<and>
           status resp = 422 \<and> headers resp = None"
  using assms by (simp add: handler_defs Let_def typedjson_def)

text \<open>C10 at the sample submission with an empty branch.\<close>

theorem validation_failure_no_side_effects_witness:
  "sample_params ''projectP'' = Some ''p1'' \<and>
   sample_params ''organizationSlug'' = Some ''acme'' \<and>
   form (sample_request invalid_form) = Some invalid_form \<and>
   FormData_get invalid_form ''action'' \<noteq> Some (FText ''destroy'') \<and>
   UpdateProjectSettings_validate sample_collaborators (Object_fromEntries invalid_form)
     (envVars (Object_fromEntries invalid_form)) = PayloadError [([''branch''], ''Required'')] \<and>
   (\<exists>resp. action sample_collaborators sample_params (sample_request invalid_form) start =
           (Inr resp,
            \<lparr>world = world start,
             calls = calls start @
               [Ev_formData,
                Ev_console_log (Object_fromEntries invalid_form)
                  (envVars (Object_fromEntries invalid_form)),
                Ev_validate (Object_fromEntries invalid_form)
                  (envVars (Object_fromEntries invalid_form))]\<rparr>) \<and>
           status resp = 422 \<and> headers resp = None)"
proof -
  have get: "FormData_get invalid_form ''action'' \<noteq> Some (FText ''destroy'')"
    by (simp add: FormData_get_def invalid_form_def)
  have bad: "UpdateProjectSettings_validate sample_collaborators (Object_fromEntries invalid_form)
      (envVars (Object_fromEntries invalid_form)) = PayloadError [([''branch''], ''Required'')]"
    by (simp only: sample_validate sample_invalid)
  note inst = validation_failure_no_side_effects [OF sample_params_values sample_request_form
      get bad, where r = start]
  show ?thesis
    by (intro conjI sample_params_values sample_request_form get bad inst)
qed

end
